theory Spec2Isabelle
  imports Main "HOL-Library.Sublist"
begin

section \<open>The file routes of the collaboration backend\<close>

text \<open>
  A shallow embedding of \<^verbatim>\<open>backend/routes/files.js\<close>: seven Express routes over the
  Mongoose collections File, Edit and Notification (and the users that \<^verbatim>\<open>populate\<close>
  reads). Each route is a function from the database before the request to the response
  and the database after it. Whether a store call rejects (every handler wraps its body
  in \<^verbatim>\<open>try/catch\<close>) is decided by an environment given to the route, so that every
  \<^verbatim>\<open>catch\<close> branch is a branch of the model.
\<close>

subsection \<open>Documents\<close>

text \<open>An ObjectId.\<close>

type_synonym oid = nat

text \<open>
  \<^verbatim>\<open>req.user\<close>, as the routes read it (\<^verbatim>\<open>_id\<close>, \<^verbatim>\<open>role\<close>), with the two fields
  \<^verbatim>\<open>populate('author', 'name email')\<close> selects.
\<close>

record User =
  user_id :: oid
  name :: string
  email :: string
  role :: string

text \<open>
  An element of \<^verbatim>\<open>versions\<close>, with the two fields the routes write. A field the
  request body does not carry is \<^verbatim>\<open>undefined\<close>: \<open>None\<close>.
\<close>

record Version =
  content :: "string option"
  updatedBy :: oid

text \<open>
  A File document, with the fields the routes read and write.
  Modelled from the spec: the schema \<^verbatim>\<open>models/File.js\<close> is not part of the sources;
  \<open>updatedAt\<close>, the sort key of the two listings, is a timestamp that every save
  refreshes.
\<close>

record File =
  file_id :: oid
  name :: "string option"
  content :: "string option"
  author :: oid
  status :: string
  versions :: "Version list"
  updatedAt :: nat

text \<open>
  Edit and Notification documents: the routes only use the field that refers to a File
  (\<^verbatim>\<open>file\<close>, \<^verbatim>\<open>fileId\<close>).
\<close>

record Edit =
  edit_id :: oid
  "file" :: oid

record Notification =
  notification_id :: oid
  fileId :: oid

record db =
  files :: "File list"
  edits :: "Edit list"
  notifications :: "Notification list"
  users :: "User list"

subsection \<open>The environment of one request\<close>

text \<open>
  The store calls a handler awaits. Each may reject, which throws into the handler's
  \<^verbatim>\<open>catch\<close>; a call that rejects leaves its collection as it was.
\<close>

datatype store_call =
    FileFind
  | FileFindById
  | FileSave
  | FilePopulate
  | EditDeleteMany
  | NotificationDeleteMany
  | FileFindByIdAndDelete

text \<open>
  \<open>throws\<close> says which store calls reject during this request (a validation failure of
  \<^verbatim>\<open>save\<close> is one of them), \<open>now\<close> is the clock of the store, \<open>new_id\<close> the ObjectId
  \<^verbatim>\<open>new File(...)\<close> generates.
\<close>

record env =
  throws :: "store_call \<Rightarrow> bool"
  now :: nat
  new_id :: oid

subsection \<open>Responses\<close>

text \<open>A populated File: the document and the \<^verbatim>\<open>name\<close> and \<^verbatim>\<open>email\<close> of its author, when the user exists.\<close>

type_synonym populated = "File \<times> (string \<times> string) option"

datatype body =
    Message string
  | FileDoc populated
  | FileDocs "populated list"

text \<open>
  \<open>Response code body\<close> is \<^verbatim>\<open>res.status(code).json(body)\<close>; \<^verbatim>\<open>res.json(body)\<close> has status 200.
  \<open>Denied\<close> is the answer of the \<^verbatim>\<open>authorize\<close> middleware when it does not call the
  handler; its status and body are not part of the sources.
\<close>

datatype response =
    Response nat body
  | Denied

fun succeeded :: "response \<Rightarrow> bool" where
  "succeeded (Response code b) = (200 \<le> code \<and> code < 300)"
| "succeeded Denied = False"

fun returned_files :: "response \<Rightarrow> File list" where
  "returned_files (Response code (FileDocs ps)) = map fst ps"
| "returned_files (Response code (FileDoc p)) = [fst p]"
| "returned_files (Response code (Message m)) = []"
| "returned_files Denied = []"

subsection \<open>The store\<close>

definition findById :: "File list \<Rightarrow> oid \<Rightarrow> File option" where
  "findById fs i = find (\<lambda>f. file_id f = i) fs"

text \<open>\<^verbatim>\<open>.sort({ updatedAt: -1 })\<close>: most recently updated first.\<close>

definition sort_updatedAt_desc :: "File list \<Rightarrow> File list" where
  "sort_updatedAt_desc fs = sort_key (\<lambda>f. - int (updatedAt f)) fs"

text \<open>\<^verbatim>\<open>.populate('author', 'name email')\<close>: the author's id resolved against the users.\<close>

definition populate :: "User list \<Rightarrow> File \<Rightarrow> populated" where
  "populate us f =
     (f, map_option (\<lambda>u. (User.name u, email u)) (find (\<lambda>u. user_id u = author f) us))"

text \<open>\<^verbatim>\<open>File.find(q).populate(...).sort(...)\<close> for a query \<open>q\<close>.\<close>

definition find_files :: "db \<Rightarrow> (File \<Rightarrow> bool) \<Rightarrow> populated list" where
  "find_files d q = map (populate (users d)) (sort_updatedAt_desc (filter q (files d)))"

text \<open>The document with the id of \<open>f\<close> replaced by \<open>f\<close>.\<close>

fun replace_doc :: "File \<Rightarrow> File list \<Rightarrow> File list" where
  "replace_doc f [] = []"
| "replace_doc f (g # gs) =
     (if file_id g = file_id f then f # gs else g # replace_doc f gs)"

fun remove_doc :: "oid \<Rightarrow> File list \<Rightarrow> File list" where
  "remove_doc i [] = []"
| "remove_doc i (g # gs) = (if file_id g = i then gs else g # remove_doc i gs)"

text \<open>
  \<^verbatim>\<open>file.save()\<close> of a document made by \<^verbatim>\<open>new File(...)\<close>: an insert, which the store
  rejects when the id is taken. \<open>None\<close> is a rejection.
\<close>

definition save_new :: "env \<Rightarrow> File \<Rightarrow> File list \<Rightarrow> (File \<times> File list) option" where
  "save_new e f fs =
     (if throws e FileSave \<or> findById fs (file_id f) \<noteq> None then None
      else (let f' = f\<lparr>updatedAt := now e\<rparr> in Some (f', fs @ [f'])))"

text \<open>\<^verbatim>\<open>file.save()\<close> of a document that was loaded by \<^verbatim>\<open>findById\<close>.\<close>

definition save_loaded :: "env \<Rightarrow> File \<Rightarrow> File list \<Rightarrow> (File \<times> File list) option" where
  "save_loaded e f fs =
     (if throws e FileSave then None
      else (let f' = f\<lparr>updatedAt := now e\<rparr> in Some (f', replace_doc f' fs)))"

text \<open>\<^verbatim>\<open>Edit.deleteMany({ file: id })\<close> and \<^verbatim>\<open>Notification.deleteMany({ fileId: id })\<close>.\<close>

definition Edit_deleteMany :: "oid \<Rightarrow> Edit list \<Rightarrow> Edit list" where
  "Edit_deleteMany i es = filter (\<lambda>e. file e \<noteq> i) es"

definition Notification_deleteMany :: "oid \<Rightarrow> Notification list \<Rightarrow> Notification list" where
  "Notification_deleteMany i ns = filter (\<lambda>n. fileId n \<noteq> i) ns"

subsection \<open>Middleware\<close>

text \<open>
  Modelled from the spec: \<^verbatim>\<open>middleware/auth.js\<close> is not part of the sources.
  \<^verbatim>\<open>authenticate\<close> provides \<^verbatim>\<open>req.user\<close>, the principal every route below takes;
  \<^verbatim>\<open>authorize(r1, ..., rn)\<close> is the check "does the role of the principal belong to the
  allowed set", made before the handler runs.
\<close>

definition authorize :: "string list \<Rightarrow> User \<Rightarrow> bool" where
  "authorize allowed u = (role u \<in> set allowed)"

subsection \<open>The routes\<close>

text \<open>\<^verbatim>\<open>router.get('/')\<close>: all approved files.\<close>

definition get_root :: "env \<Rightarrow> db \<Rightarrow> User \<Rightarrow> response \<times> db" where
  "get_root e d u =
     (if throws e FileFind then (Response 500 (Message ''Failed to fetch files''), d)
      else (Response 200 (FileDocs (find_files d (\<lambda>f. status f = ''approved''))), d))"

text \<open>\<^verbatim>\<open>router.get('/my/files')\<close>: the files created by the current user.\<close>

definition get_my_files :: "env \<Rightarrow> db \<Rightarrow> User \<Rightarrow> response \<times> db" where
  "get_my_files e d u =
     (if throws e FileFind then (Response 500 (Message ''Failed to fetch files''), d)
      else (Response 200 (FileDocs (find_files d (\<lambda>f. author f = user_id u))), d))"

text \<open>\<^verbatim>\<open>router.get('/:id')\<close>: a single file.\<close>

definition get_id :: "env \<Rightarrow> db \<Rightarrow> User \<Rightarrow> oid \<Rightarrow> response \<times> db" where
  "get_id e d u i =
     (if throws e FileFindById then (Response 500 (Message ''Failed to fetch file''), d)
      else (case findById (files d) i of
              None \<Rightarrow> (Response 404 (Message ''File not found''), d)
            | Some f \<Rightarrow> (Response 200 (FileDoc (populate (users d) f)), d)))"

text \<open>\<^verbatim>\<open>router.post('/')\<close>: create a file (editor and admin). The body carries \<open>name\<close> and \<open>content\<close>.\<close>

definition post_handler ::
  "env \<Rightarrow> db \<Rightarrow> User \<Rightarrow> string option \<Rightarrow> string option \<Rightarrow> response \<times> db" where
  "post_handler e d u nm c =
     (let f = \<lparr>file_id = new_id e, name = nm, content = c, author = user_id u,
               status = ''approved'',
               versions = [\<lparr>Version.content = c, updatedBy = user_id u\<rparr>],
               updatedAt = now e\<rparr>
      in case save_new e f (files d) of
           None \<Rightarrow> (Response 500 (Message ''Failed to create file''), d)
         | Some (f', fs') \<Rightarrow>
             (let d' = d\<lparr>files := fs'\<rparr>
              in if throws e FilePopulate
                 then (Response 500 (Message ''Failed to create file''), d')
                 else (Response 201 (FileDoc (populate (users d') f')), d')))"

definition post_root ::
  "env \<Rightarrow> db \<Rightarrow> User \<Rightarrow> string option \<Rightarrow> string option \<Rightarrow> response \<times> db" where
  "post_root e d u nm c =
     (if authorize [''editor'', ''admin''] u then post_handler e d u nm c else (Denied, d))"

text \<open>\<^verbatim>\<open>router.put('/:id')\<close>: update a file directly (admin only). The body carries \<open>content\<close>.\<close>

definition put_handler ::
  "env \<Rightarrow> db \<Rightarrow> User \<Rightarrow> oid \<Rightarrow> string option \<Rightarrow> response \<times> db" where
  "put_handler e d u i c =
     (if throws e FileFindById then (Response 500 (Message ''Failed to update file''), d)
      else (case findById (files d) i of
              None \<Rightarrow> (Response 404 (Message ''File not found''), d)
            | Some f0 \<Rightarrow>
                (let f1 = f0\<lparr>versions := versions f0 @
                              [\<lparr>Version.content = File.content f0, updatedBy = user_id u\<rparr>]\<rparr>;
                     f2 = f1\<lparr>File.content := c\<rparr>
                 in case save_loaded e f2 (files d) of
                      None \<Rightarrow> (Response 500 (Message ''Failed to update file''), d)
                    | Some (f', fs') \<Rightarrow>
                        (let d' = d\<lparr>files := fs'\<rparr>
                         in if throws e FilePopulate
                            then (Response 500 (Message ''Failed to update file''), d')
                            else (Response 200 (FileDoc (populate (users d') f')), d')))))"

definition put_id ::
  "env \<Rightarrow> db \<Rightarrow> User \<Rightarrow> oid \<Rightarrow> string option \<Rightarrow> response \<times> db" where
  "put_id e d u i c =
     (if authorize [''admin''] u then put_handler e d u i c else (Denied, d))"

text \<open>
  \<^verbatim>\<open>router.put('/:id/save')\<close>: save one's own file (editor and admin). The body carries
  \<open>content\<close> and \<open>name\<close>; \<^verbatim>\<open>if (name)\<close> holds for a string that is not empty.
\<close>

definition save_handler ::
  "env \<Rightarrow> db \<Rightarrow> User \<Rightarrow> oid \<Rightarrow> string option \<Rightarrow> string option \<Rightarrow> response \<times> db" where
  "save_handler e d u i c nm =
     (if throws e FileFindById then (Response 500 (Message ''Failed to save file''), d)
      else (case findById (files d) i of
              None \<Rightarrow> (Response 404 (Message ''File not found''), d)
            | Some f0 \<Rightarrow>
                if author f0 \<noteq> user_id u \<and> role u \<noteq> ''admin''
                then (Response 403 (Message ''You can only save your own files''), d)
                else
                (let f1 = f0\<lparr>versions := versions f0 @
                              [\<lparr>Version.content = File.content f0, updatedBy = user_id u\<rparr>]\<rparr>;
                     f2 = f1\<lparr>File.content := c\<rparr>;
                     f3 = (if nm \<noteq> None \<and> nm \<noteq> Some [] then f2\<lparr>File.name := nm\<rparr> else f2)
                 in case save_loaded e f3 (files d) of
                      None \<Rightarrow> (Response 500 (Message ''Failed to save file''), d)
                    | Some (f', fs') \<Rightarrow>
                        (let d' = d\<lparr>files := fs'\<rparr>
                         in if throws e FilePopulate
                            then (Response 500 (Message ''Failed to save file''), d')
                            else (Response 200 (FileDoc (populate (users d') f')), d')))))"

definition put_id_save ::
  "env \<Rightarrow> db \<Rightarrow> User \<Rightarrow> oid \<Rightarrow> string option \<Rightarrow> string option \<Rightarrow> response \<times> db" where
  "put_id_save e d u i c nm =
     (if authorize [''editor'', ''admin''] u then save_handler e d u i c nm else (Denied, d))"

text \<open>
  \<^verbatim>\<open>router.delete('/:id')\<close>: delete a file (editor and admin). \<^verbatim>\<open>Promise.all\<close> starts
  both \<^verbatim>\<open>deleteMany\<close> calls and rejects when one of them does; the other one still runs.
\<close>

definition delete_handler :: "env \<Rightarrow> db \<Rightarrow> User \<Rightarrow> oid \<Rightarrow> response \<times> db" where
  "delete_handler e d u i =
     (if throws e FileFindById then (Response 500 (Message ''Failed to delete file''), d)
      else (case findById (files d) i of
              None \<Rightarrow> (Response 404 (Message ''File not found''), d)
            | Some f0 \<Rightarrow>
                (let d1 = (if throws e EditDeleteMany then d
                           else d\<lparr>edits := Edit_deleteMany i (edits d)\<rparr>);
                     d2 = (if throws e NotificationDeleteMany then d1
                           else d1\<lparr>notifications := Notification_deleteMany i (notifications d1)\<rparr>)
                 in if throws e EditDeleteMany \<or> throws e NotificationDeleteMany
                    then (Response 500 (Message ''Failed to delete file''), d2)
                    else if throws e FileFindByIdAndDelete
                    then (Response 500 (Message ''Failed to delete file''), d2)
                    else (Response 200 (Message ''File deleted successfully''),
                          d2\<lparr>files := remove_doc i (files d2)\<rparr>))))"

definition delete_id :: "env \<Rightarrow> db \<Rightarrow> User \<Rightarrow> oid \<Rightarrow> response \<times> db" where
  "delete_id e d u i =
     (if authorize [''editor'', ''admin''] u then delete_handler e d u i else (Denied, d))"

subsection \<open>The router\<close>

datatype request =
    GET_root
  | GET_my_files
  | GET_id oid
  | POST_root "string option" "string option"
  | PUT_id oid "string option"
  | PUT_id_save oid "string option" "string option"
  | DELETE_id oid

fun router :: "env \<Rightarrow> db \<Rightarrow> User \<Rightarrow> request \<Rightarrow> response \<times> db" where
  "router e d u GET_root = get_root e d u"
| "router e d u GET_my_files = get_my_files e d u"
| "router e d u (GET_id i) = get_id e d u i"
| "router e d u (POST_root nm c) = post_root e d u nm c"
| "router e d u (PUT_id i c) = put_id e d u i c"
| "router e d u (PUT_id_save i c nm) = put_id_save e d u i c nm"
| "router e d u (DELETE_id i) = delete_id e d u i"

subsection \<open>Documents after a request, and runs of requests\<close>

text \<open>The document \<^verbatim>\<open>router.post('/')\<close> builds and saves.\<close>

definition created :: "env \<Rightarrow> User \<Rightarrow> string option \<Rightarrow> string option \<Rightarrow> File" where
  "created e u nm c =
     \<lparr>file_id = new_id e, name = nm, content = c, author = user_id u, status = ''approved'',
      versions = [\<lparr>Version.content = c, updatedBy = user_id u\<rparr>], updatedAt = now e\<rparr>"

text \<open>The document \<^verbatim>\<open>router.put('/:id/save')\<close> saves, from the document \<open>f\<close> it loaded.\<close>

definition saved :: "env \<Rightarrow> User \<Rightarrow> string option \<Rightarrow> string option \<Rightarrow> File \<Rightarrow> File" where
  "saved e u c nm f =
     f\<lparr>versions := versions f @ [\<lparr>Version.content = File.content f, updatedBy = user_id u\<rparr>],
       File.content := c,
       File.name := (if nm \<noteq> None \<and> nm \<noteq> Some [] then nm else File.name f),
       updatedAt := now e\<rparr>"

text \<open>The document \<^verbatim>\<open>router.put('/:id')\<close> saves, from the document \<open>f\<close> it loaded.\<close>

definition force_updated :: "env \<Rightarrow> User \<Rightarrow> string option \<Rightarrow> File \<Rightarrow> File" where
  "force_updated e u c f =
     f\<lparr>versions := versions f @ [\<lparr>Version.content = File.content f, updatedBy = user_id u\<rparr>],
       File.content := c,
       updatedAt := now e\<rparr>"

text \<open>
  A run of save requests on the file \<open>i\<close>, each with its own environment, principal,
  content and name: the responses in order, and the database after the last one.
\<close>

fun req_content :: "env \<times> User \<times> string option \<times> string option \<Rightarrow> string option" where
  "req_content (e, u, c, nm) = c"

fun save_all ::
  "db \<Rightarrow> oid \<Rightarrow> (env \<times> User \<times> string option \<times> string option) list \<Rightarrow> response list \<times> db" where
  "save_all d i [] = ([], d)"
| "save_all d i ((e, u, c, nm) # rest) =
     (let (r, d') = put_id_save e d u i c nm;
          (rs, d'') = save_all d' i rest
      in (r # rs, d''))"

text \<open>A file is created, and the file it made is then saved by the run \<open>reqs\<close>.\<close>

definition create_then_save ::
  "env \<Rightarrow> db \<Rightarrow> User \<Rightarrow> string option \<Rightarrow> string option \<Rightarrow>
   (env \<times> User \<times> string option \<times> string option) list \<Rightarrow> response list \<times> db" where
  "create_then_save e d u nm c reqs = save_all (snd (post_root e d u nm c)) (new_id e) reqs"

text \<open>
  The ledger of the file \<open>i\<close> is kept from \<open>d\<close> to \<open>d'\<close>: when \<open>d\<close> has the file, \<open>d'\<close>
  has it too, and its \<open>versions\<close> in \<open>d\<close> is a prefix of its \<open>versions\<close> in \<open>d'\<close>.
\<close>

definition ledger_kept :: "oid \<Rightarrow> db \<Rightarrow> db \<Rightarrow> bool" where
  "ledger_kept i d d' =
     (case findById (files d) i of
        None \<Rightarrow> True
      | Some f \<Rightarrow>
          (case findById (files d') i of
             None \<Rightarrow> False
           | Some f' \<Rightarrow> prefix (versions f) (versions f')))"

subsection \<open>A concrete scenario\<close>

text \<open>An environment in which no store call rejects, and one in which exactly one does.\<close>

definition quiet :: "nat \<Rightarrow> oid \<Rightarrow> env" where
  "quiet t i = \<lparr>throws = (\<lambda>c. False), now = t, new_id = i\<rparr>"

definition failing :: "store_call \<Rightarrow> nat \<Rightarrow> oid \<Rightarrow> env" where
  "failing x t i = \<lparr>throws = (\<lambda>c. c = x), now = t, new_id = i\<rparr>"

text \<open>Two editors and an admin, and a database with no file yet.\<close>

definition erin :: User where
  "erin = \<lparr>user_id = 1, name = ''Erin'', email = ''erin@example.org'', role = ''editor''\<rparr>"

definition eli :: User where
  "eli = \<lparr>user_id = 2, name = ''Eli'', email = ''eli@example.org'', role = ''editor''\<rparr>"

definition ada :: User where
  "ada = \<lparr>user_id = 3, name = ''Ada'', email = ''ada@example.org'', role = ''admin''\<rparr>"

definition db0 :: db where
  "db0 = \<lparr>files = [], edits = [], notifications = [], users = [erin, eli, ada]\<rparr>"

text \<open>
  A database with two files, an approved one of Erin's and a draft of Eli's, each
  with an Edit and a Notification that refer to it.
\<close>

definition memo :: File where
  "memo = \<lparr>file_id = 7, name = Some ''a.txt'', content = Some ''hello'', author = 1,
            status = ''approved'',
            versions = [\<lparr>Version.content = Some ''hello'', updatedBy = 1\<rparr>], updatedAt = 10\<rparr>"

definition sketch :: File where
  "sketch = \<lparr>file_id = 8, name = Some ''b.txt'', content = Some ''todo'', author = 2,
            status = ''draft'',
            versions = [\<lparr>Version.content = Some ''todo'', updatedBy = 2\<rparr>], updatedAt = 12\<rparr>"

definition db1 :: db where
  "db1 = \<lparr>files = [memo, sketch],
          edits = [\<lparr>edit_id = 1, file = 7\<rparr>, \<lparr>edit_id = 2, file = 8\<rparr>],
          notifications = [\<lparr>notification_id = 1, fileId = 7\<rparr>, \<lparr>notification_id = 2, fileId = 8\<rparr>],
          users = [erin, eli, ada]\<rparr>"

lemmas scenario_defs = quiet_def failing_def erin_def eli_def ada_def db0_def

lemmas scenario_db_defs = scenario_defs memo_def sketch_def db1_def

lemmas route_defs =
  get_root_def get_my_files_def get_id_def post_root_def post_handler_def put_id_def
  put_handler_def put_id_save_def save_handler_def delete_id_def delete_handler_def
  authorize_def save_new_def save_loaded_def findById_def populate_def find_files_def
  sort_updatedAt_desc_def Edit_deleteMany_def Notification_deleteMany_def Let_def

section \<open>Properties\<close>

subsection \<open>Lookups in the store\<close>

lemma findById_SomeD: "findById fs i = Some f \<Longrightarrow> file_id f = i \<and> f \<in> set fs"
  by (auto simp: findById_def find_Some_iff)

lemma findById_replace_same:
  "findById fs (file_id f) \<noteq> None \<Longrightarrow> findById (replace_doc f fs) (file_id f) = Some f"
  by (induction fs) (auto simp: findById_def)

lemma findById_replace_other:
  "i \<noteq> file_id f \<Longrightarrow> findById (replace_doc f fs) i = findById fs i"
  by (induction fs) (auto simp: findById_def)

lemma findById_remove_other:
  "i \<noteq> j \<Longrightarrow> findById (remove_doc j fs) i = findById fs i"
  by (induction fs) (auto simp: findById_def)

lemma findById_append:
  "findById (fs @ [f]) i =
     (case findById fs i of Some g \<Rightarrow> Some g
      | None \<Rightarrow> if file_id f = i then Some f else None)"
  by (induction fs) (auto simp: findById_def)

subsection \<open>What each handler does when the store answers\<close>

lemma post_handler_ok:
  assumes "\<not> throws e FileSave" and "findById (files d) (new_id e) = None"
    and "\<not> throws e FilePopulate"
  shows "post_handler e d u nm c =
           (Response 201 (FileDoc (populate (users d) (created e u nm c))),
            d\<lparr>files := files d @ [created e u nm c]\<rparr>)"
  using assms by (simp add: post_handler_def save_new_def created_def Let_def)

lemma post_handler_succeededD:
  assumes "succeeded (fst (post_handler e d u nm c))"
  shows "\<not> throws e FileSave \<and> findById (files d) (new_id e) = None \<and> \<not> throws e FilePopulate"
  using assms
  by (auto simp: post_handler_def save_new_def Let_def split: if_splits option.splits)

lemma post_root_succeeded:
  assumes "succeeded (fst (post_root e d u nm c))"
  shows "findById (files (snd (post_root e d u nm c))) (new_id e) = Some (created e u nm c)"
proof -
  from assms have auth: "authorize [''editor'', ''admin''] u"
    by (auto simp: post_root_def split: if_splits)
  with assms have "succeeded (fst (post_handler e d u nm c))" by (simp add: post_root_def)
  from post_handler_succeededD [OF this]
  have ok: "\<not> throws e FileSave" "findById (files d) (new_id e) = None" "\<not> throws e FilePopulate"
    by auto
  have "file_id (created e u nm c) = new_id e" by (simp add: created_def)
  with post_handler_ok [OF ok, of u nm c] auth ok(2) show ?thesis
    by (simp add: post_root_def findById_append)
qed

lemma save_handler_ok:
  assumes "findById (files d) i = Some f" and "\<not> throws e FileFindById"
    and "\<not> throws e FileSave" and "\<not> throws e FilePopulate"
    and "author f = user_id u \<or> role u = ''admin''"
  shows "save_handler e d u i c nm =
           (Response 200 (FileDoc (populate (users d) (saved e u c nm f))),
            d\<lparr>files := replace_doc (saved e u c nm f) (files d)\<rparr>)"
  using assms by (auto simp: save_handler_def save_loaded_def saved_def Let_def)

lemma save_handler_succeededD:
  assumes "succeeded (fst (save_handler e d u i c nm))"
  shows "\<not> throws e FileFindById \<and> \<not> throws e FileSave \<and> \<not> throws e FilePopulate \<and>
         (\<exists>f. findById (files d) i = Some f \<and> (author f = user_id u \<or> role u = ''admin''))"
  using assms
  by (auto simp: save_handler_def save_loaded_def Let_def split: if_splits option.splits)

lemma put_id_save_succeeded:
  assumes "put_id_save e d u i c nm = (r, d')" and "succeeded r"
    and "findById (files d) i = Some f"
  shows "findById (files d') i = Some (saved e u c nm f)"
proof -
  from assms(1,2) have auth: "authorize [''editor'', ''admin''] u"
    by (auto simp: put_id_save_def split: if_splits)
  with assms(1) have h: "save_handler e d u i c nm = (r, d')"
    by (simp add: put_id_save_def)
  with assms(2) have "succeeded (fst (save_handler e d u i c nm))" by simp
  from save_handler_succeededD [OF this] assms(3)
  have ok: "\<not> throws e FileFindById" "\<not> throws e FileSave" "\<not> throws e FilePopulate"
    "author f = user_id u \<or> role u = ''admin''"
    by auto
  from save_handler_ok [OF assms(3) ok, of c nm] h
  have d': "d' = d\<lparr>files := replace_doc (saved e u c nm f) (files d)\<rparr>" by simp
  have id: "file_id (saved e u c nm f) = i"
    using findById_SomeD [OF assms(3)] by (simp add: saved_def)
  from assms(3) id have "findById (files d) (file_id (saved e u c nm f)) \<noteq> None" by simp
  from findById_replace_same [OF this] id d' show ?thesis by simp
qed

lemma put_handler_ok:
  assumes "findById (files d) i = Some f" and "\<not> throws e FileFindById"
    and "\<not> throws e FileSave" and "\<not> throws e FilePopulate"
  shows "put_handler e d u i c =
           (Response 200 (FileDoc (populate (users d) (force_updated e u c f))),
            d\<lparr>files := replace_doc (force_updated e u c f) (files d)\<rparr>)"
  using assms by (auto simp: put_handler_def save_loaded_def force_updated_def Let_def)

lemma delete_handler_cases:
  assumes "findById (files d) i = Some f" and "\<not> throws e FileFindById"
  shows "delete_handler e d u i =
     (if throws e EditDeleteMany \<or> throws e NotificationDeleteMany \<or> throws e FileFindByIdAndDelete
      then (Response 500 (Message ''Failed to delete file''),
            d\<lparr>edits := (if throws e EditDeleteMany then edits d else Edit_deleteMany i (edits d)),
              notifications := (if throws e NotificationDeleteMany then notifications d
                                else Notification_deleteMany i (notifications d))\<rparr>)
      else (Response 200 (Message ''File deleted successfully''),
            d\<lparr>edits := Edit_deleteMany i (edits d),
              notifications := Notification_deleteMany i (notifications d),
              files := remove_doc i (files d)\<rparr>))"
  using assms by (simp add: delete_handler_def Let_def)

lemma delete_id_succeededD:
  assumes "succeeded (fst (delete_id e d u i))"
  shows "snd (delete_id e d u i) =
           d\<lparr>edits := Edit_deleteMany i (edits d),
             notifications := Notification_deleteMany i (notifications d),
             files := remove_doc i (files d)\<rparr>"
  using assms
  by (auto simp: delete_id_def delete_handler_def Let_def split: if_splits option.splits)

lemma delete_id_cleanup_failed:
  assumes "throws e EditDeleteMany \<or> throws e NotificationDeleteMany"
  shows "\<not> succeeded (fst (delete_id e d u i)) \<and> files (snd (delete_id e d u i)) = files d"
  using assms
  by (auto simp: delete_id_def delete_handler_def Let_def split: if_splits option.splits)

lemma set_sort_updatedAt_desc: "set (sort_updatedAt_desc fs) = set fs"
  by (simp add: sort_updatedAt_desc_def)

lemma returned_get_root:
  "set (returned_files (fst (get_root e d u))) =
     (if throws e FileFind then {} else {f \<in> set (files d). status f = ''approved''})"
  by (auto simp: get_root_def find_files_def populate_def set_sort_updatedAt_desc image_iff)

lemma returned_get_my_files:
  "set (returned_files (fst (get_my_files e d u))) =
     (if throws e FileFind then {} else {f \<in> set (files d). author f = user_id u})"
  by (auto simp: get_my_files_def find_files_def populate_def set_sort_updatedAt_desc image_iff)

subsection \<open>The ledger of a file across one request\<close>

lemma ledger_kept_refl: "ledger_kept i d d"
  by (simp add: ledger_kept_def split: option.splits)

lemma ledger_kept_append:
  "findById (files d) (file_id g) = None \<Longrightarrow> ledger_kept i d (d\<lparr>files := files d @ [g]\<rparr>)"
  by (auto simp: ledger_kept_def findById_append split: option.splits)

lemma ledger_kept_replace:
  assumes "findById (files d) j = Some g" and "file_id g' = j"
    and "prefix (versions g) (versions g')"
  shows "ledger_kept i d (d\<lparr>files := replace_doc g' (files d)\<rparr>)"
proof (cases "i = j")
  case True
  with assms have "findById (files d) (file_id g') \<noteq> None" by simp
  from findById_replace_same [OF this] True assms show ?thesis
    by (simp add: ledger_kept_def)
next
  case False
  with assms(2) have "i \<noteq> file_id g'" by simp
  from findById_replace_other [OF this] show ?thesis
    by (simp add: ledger_kept_def split: option.splits)
qed

lemma ledger_kept_remove:
  "i \<noteq> j \<Longrightarrow> ledger_kept i d (d\<lparr>files := remove_doc j (files d)\<rparr>)"
  by (simp add: ledger_kept_def findById_remove_other split: option.splits)

lemma ledger_post_root: "ledger_kept i d (snd (post_root e d u nm c))"
proof -
  have "ledger_kept i d (d\<lparr>files := files d @ [g]\<rparr>)"
    if "findById (files d) (new_id e) = None" and "file_id g = new_id e" for g
    using that ledger_kept_append [of d g i] by simp
  then show ?thesis
    by (auto simp: post_root_def post_handler_def save_new_def Let_def ledger_kept_refl
        split: option.splits)
qed

lemma ledger_put_id: "ledger_kept i d (snd (put_id e d u j c))"
proof (cases "findById (files d) j")
  case None
  then show ?thesis
    by (simp add: put_id_def put_handler_def ledger_kept_refl)
next
  case (Some g)
  have "ledger_kept i d (d\<lparr>files := replace_doc (force_updated e u c g) (files d)\<rparr>)"
    using findById_SomeD [OF Some]
    by (intro ledger_kept_replace [OF Some]) (simp_all add: force_updated_def)
  with Some show ?thesis
    by (simp add: put_id_def put_handler_def save_loaded_def Let_def ledger_kept_refl
        force_updated_def)
qed

lemma snd_save_handler:
  assumes "findById (files d) j = Some g"
  shows "snd (save_handler e d u j c nm) = d \<or>
         snd (save_handler e d u j c nm) = d\<lparr>files := replace_doc (saved e u c nm g) (files d)\<rparr>"
  using assms
  by (cases "nm \<noteq> None \<and> nm \<noteq> Some []")
    (auto simp: save_handler_def save_loaded_def saved_def Let_def)

lemma ledger_put_id_save: "ledger_kept i d (snd (put_id_save e d u j c nm))"
proof (cases "findById (files d) j")
  case None
  then show ?thesis
    by (simp add: put_id_save_def save_handler_def ledger_kept_refl)
next
  case (Some g)
  have "ledger_kept i d (d\<lparr>files := replace_doc (saved e u c nm g) (files d)\<rparr>)"
    using findById_SomeD [OF Some]
    by (intro ledger_kept_replace [OF Some]) (simp_all add: saved_def)
  with snd_save_handler [OF Some, of e u c nm] show ?thesis
    by (auto simp: put_id_save_def ledger_kept_refl)
qed

lemma files_delete_id:
  "files (snd (delete_id e d u j)) = files d \<or>
   files (snd (delete_id e d u j)) = remove_doc j (files d)"
  by (simp add: delete_id_def delete_handler_def Let_def split: option.splits)

lemma ledger_delete_id:
  assumes "i \<noteq> j"
  shows "ledger_kept i d (snd (delete_id e d u j))"
  using files_delete_id [of e d u j] ledger_kept_remove [OF assms, of d]
  by (auto simp: ledger_kept_def split: option.splits)

subsection \<open>The ids of the stored files stay distinct\<close>

lemma ids_replace_doc: "map file_id (replace_doc f fs) = map file_id fs"
  by (induction fs) auto

lemma ids_remove_doc: "set (map file_id (remove_doc i fs)) \<subseteq> set (map file_id fs)"
  by (induction fs) auto

lemma distinct_remove_doc:
  "distinct (map file_id fs) \<Longrightarrow> distinct (map file_id (remove_doc i fs))"
proof (induction fs)
  case Nil
  then show ?case by simp
next
  case (Cons g gs)
  with ids_remove_doc [of i gs] show ?case by auto
qed

lemma findById_None_iff: "findById fs i = None \<longleftrightarrow> i \<notin> file_id ` set fs"
  by (auto simp: findById_def find_None_iff)

lemma files_post_root:
  "files (snd (post_root e d u nm c)) = files d \<or>
   (findById (files d) (new_id e) = None \<and>
    files (snd (post_root e d u nm c)) = files d @ [created e u nm c])"
  by (simp add: post_root_def post_handler_def save_new_def created_def Let_def)

lemma files_put_id:
  "files (snd (put_id e d u j c)) = files d \<or>
   (\<exists>g. files (snd (put_id e d u j c)) = replace_doc g (files d))"
  by (auto simp: put_id_def put_handler_def save_loaded_def Let_def split: option.splits)

lemma files_put_id_save:
  "files (snd (put_id_save e d u j c nm)) = files d \<or>
   (\<exists>g. files (snd (put_id_save e d u j c nm)) = replace_doc g (files d))"
  by (auto simp: put_id_save_def save_handler_def save_loaded_def Let_def split: option.splits)

lemma router_ids_distinct:
  assumes "distinct (map file_id (files d))"
  shows "distinct (map file_id (files (snd (router e d u req))))"
proof (cases req)
  case GET_root
  with assms show ?thesis by (simp add: get_root_def)
next
  case GET_my_files
  with assms show ?thesis by (simp add: get_my_files_def)
next
  case (GET_id j)
  with assms show ?thesis by (simp add: get_id_def split: option.splits)
next
  case (POST_root nm c)
  have "file_id (created e u nm c) = new_id e" by (simp add: created_def)
  with POST_root assms files_post_root [of e d u nm c] show ?thesis
    by (auto simp: findById_None_iff)
next
  case (PUT_id j c)
  with assms files_put_id [of e d u j c] show ?thesis
    by (auto simp: ids_replace_doc)
next
  case (PUT_id_save j c nm)
  with assms files_put_id_save [of e d u j c nm] show ?thesis
    by (auto simp: ids_replace_doc)
next
  case (DELETE_id j)
  with assms files_delete_id [of e d u j] distinct_remove_doc [of "files d" j] show ?thesis
    by auto
qed

lemma findById_remove_same:
  "distinct (map file_id fs) \<Longrightarrow> findById (remove_doc i fs) i = None"
proof (induction fs)
  case Nil
  then show ?case by (simp add: findById_def)
next
  case (Cons g gs)
  show ?case
  proof (cases "file_id g = i")
    case True
    with Cons.prems have "i \<notin> file_id ` set gs" by auto
    with True show ?thesis by (simp add: findById_None_iff)
  next
    case False
    with Cons show ?thesis by (simp add: findById_def)
  qed
qed

subsection \<open>The scenario\<close>

lemma db1_memo: "findById (files db1) 7 = Some memo"
  by (simp add: findById_def db1_def memo_def)

subsection \<open>The ledger after a run of saves\<close>

lemma save_all_ledger:
  assumes "findById (files d) i = Some f" and "save_all d i reqs = (rs, d')"
    and "\<forall>r\<in>set rs. succeeded r"
  shows "\<exists>f'. findById (files d') i = Some f' \<and>
           map Version.content (versions f') =
             map Version.content (versions f) @ butlast (File.content f # map req_content reqs) \<and>
           File.content f' = last (File.content f # map req_content reqs)"
  using assms
proof (induction reqs arbitrary: d f rs d')
  case Nil
  then show ?case by simp
next
  case (Cons q reqs)
  obtain e u c nm where q: "q = (e, u, c, nm)" by (cases q) auto
  obtain r d1 where step: "put_id_save e d u i c nm = (r, d1)" by fastforce
  obtain rs1 d2 where rest: "save_all d1 i reqs = (rs1, d2)" by fastforce
  from Cons.prems(2) q step rest have rs: "rs = r # rs1" and d': "d' = d2" by auto
  from Cons.prems(3) rs have r: "succeeded r" and rs1: "\<forall>r\<in>set rs1. succeeded r" by auto
  from put_id_save_succeeded [OF step r Cons.prems(1)]
  have f1: "findById (files d1) i = Some (saved e u c nm f)" .
  from Cons.IH [OF f1 rest rs1] obtain f' where
    f': "findById (files d2) i = Some f'"
    "map Version.content (versions f') =
       map Version.content (versions (saved e u c nm f)) @
       butlast (File.content (saved e u c nm f) # map req_content reqs)"
    "File.content f' = last (File.content (saved e u c nm f) # map req_content reqs)"
    by blast
  from f' q d' show ?case by (simp add: saved_def)
qed

section \<open>The claims\<close>

text \<open>
  C1. A file is created with content \<open>c0\<close> and then saved \<open>N\<close> times, by the requests
  \<open>reqs\<close> with contents \<open>c1, ..., cN\<close>; the creation and every save succeed. Then the
  file's \<open>versions\<close> has \<open>N + 1\<close> entries, entry 0 is the founding snapshot with
  content \<open>c0\<close>, entry \<open>k\<close> for \<open>k = 1..N\<close> has content \<open>c(k-1)\<close>, the content before
  the \<open>k\<close>-th save, and the current content is \<open>cN\<close>.
\<close>

theorem versions_after_saves:
  assumes "succeeded (fst (post_root e d u nm c0))"
    and "list_all succeeded (fst (create_then_save e d u nm c0 reqs))"
  shows "\<exists>f. findById (files (snd (create_then_save e d u nm c0 reqs))) (new_id e) = Some f \<and>
           length (versions f) = length reqs + 1 \<and>
           Version.content (versions f ! 0) = c0 \<and>
           (\<forall>k\<in>{1..length reqs}.
              Version.content (versions f ! k) = (c0 # map req_content reqs) ! (k - 1)) \<and>
           File.content f = last (c0 # map req_content reqs)"
proof -
  let ?d1 = "snd (post_root e d u nm c0)"
  let ?cs = "c0 # map req_content reqs"
  obtain rs dN where run: "save_all ?d1 (new_id e) reqs = (rs, dN)" by fastforce
  with assms(2) have rs: "\<forall>r\<in>set rs. succeeded r"
    by (simp add: create_then_save_def list_all_iff)
  from save_all_ledger [OF post_root_succeeded [OF assms(1)] run rs]
  obtain f where f: "findById (files dN) (new_id e) = Some f"
    and vs: "map Version.content (versions f) = c0 # butlast ?cs"
    and c: "File.content f = last ?cs"
    by (auto simp: created_def)
  from vs have len: "length (versions f) = length reqs + 1"
    by (metis length_map length_Cons length_butlast diff_Suc_1 Suc_eq_plus1)
  have nth: "Version.content (versions f ! k) = (c0 # butlast ?cs) ! k" if "k \<le> length reqs" for k
    using that len vs by (metis nth_map less_Suc_eq_le Suc_eq_plus1)
  have "Version.content (versions f ! k) = ?cs ! (k - 1)" if "k \<in> {1..length reqs}" for k
  proof -
    from that obtain j where k: "k = Suc j" and j: "j < length reqs"
      by (cases k) auto
    from nth [of k] that k have "Version.content (versions f ! k) = butlast ?cs ! j" by simp
    also have "\<dots> = ?cs ! j"
    proof (rule nth_butlast)
      from j show "j < length (butlast ?cs)" unfolding length_butlast by simp
    qed
    finally show ?thesis using k by simp
  qed
  with f len c nth [of 0] run show ?thesis
    by (simp add: create_then_save_def)
qed

theorem versions_after_saves_witness:
  "succeeded (fst (post_root (quiet 10 7) db0 erin (Some ''a.txt'') (Some ''hello''))) \<and>
   list_all succeeded
     (fst (create_then_save (quiet 10 7) db0 erin (Some ''a.txt'') (Some ''hello'')
             [(quiet 11 8, erin, Some ''world'', None), (quiet 12 9, ada, Some ''again'', Some ''b.txt'')])) \<and>
   (\<exists>f. findById (files (snd (create_then_save (quiet 10 7) db0 erin (Some ''a.txt'') (Some ''hello'')
             [(quiet 11 8, erin, Some ''world'', None), (quiet 12 9, ada, Some ''again'', Some ''b.txt'')]))) 7 = Some f \<and>
        length (versions f) = 3 \<and>
        Version.content (versions f ! 0) = Some ''hello'' \<and>
        Version.content (versions f ! 1) = Some ''hello'' \<and>
        Version.content (versions f ! 2) = Some ''world'' \<and>
        File.content f = Some ''again'')"
proof -
  let ?reqs = "[(quiet 11 8, erin, Some ''world'', None), (quiet 12 9, ada, Some ''again'', Some ''b.txt'')]"
  have h1: "succeeded (fst (post_root (quiet 10 7) db0 erin (Some ''a.txt'') (Some ''hello'')))"
    by (simp add: route_defs scenario_defs)
  have h2: "list_all succeeded
     (fst (create_then_save (quiet 10 7) db0 erin (Some ''a.txt'') (Some ''hello'') ?reqs))"
    by (simp add: create_then_save_def route_defs scenario_defs)
  from versions_after_saves [OF h1 h2] obtain f where
    f: "findById (files (snd (create_then_save (quiet 10 7) db0 erin (Some ''a.txt'') (Some ''hello'') ?reqs)))
          (new_id (quiet 10 7)) = Some f"
    and len: "length (versions f) = length ?reqs + 1"
    and v0: "Version.content (versions f ! 0) = Some ''hello''"
    and vk: "\<forall>k\<in>{1..length ?reqs}.
              Version.content (versions f ! k) = (Some ''hello'' # map req_content ?reqs) ! (k - 1)"
    and c: "File.content f = last (Some ''hello'' # map req_content ?reqs)"
    by blast
  from vk have v1: "Version.content (versions f ! 1) = Some ''hello''"
    by (simp add: Ball_def)
  have "(2::nat) \<in> {1..length ?reqs}" by simp
  with vk have "Version.content (versions f ! 2) = (Some ''hello'' # map req_content ?reqs) ! (2 - 1)"
    by blast
  then have v2: "Version.content (versions f ! 2) = Some ''world''" by simp
  from f len v0 v1 v2 c h1 h2 show ?thesis
    by (simp add: quiet_def)
qed

text \<open>
  C2. For an existing file, a principal with role editor whose id differs from the file's
  author is answered 403 by the save route, and the file is left as it was; a principal with
  role admin saves the file, whether or not the admin is its author (no premise relates
  the admin to the author). The premises say that the store answers: the lookup does
  not reject, and for the admin neither do the save and the populate.
\<close>

theorem save_ownership:
  assumes "findById (files d) i = Some f" and "\<not> throws e FileFindById"
  shows "(role u = ''editor'' \<and> user_id u \<noteq> author f \<longrightarrow>
            put_id_save e d u i c nm =
              (Response 403 (Message ''You can only save your own files''), d)) \<and>
         (role u = ''admin'' \<and> \<not> throws e FileSave \<and> \<not> throws e FilePopulate \<longrightarrow>
            put_id_save e d u i c nm =
              (Response 200 (FileDoc (populate (users d) (saved e u c nm f))),
               d\<lparr>files := replace_doc (saved e u c nm f) (files d)\<rparr>) \<and>
            succeeded (fst (put_id_save e d u i c nm)) \<and>
            findById (files (snd (put_id_save e d u i c nm))) i = Some (saved e u c nm f))"
proof (intro conjI impI)
  assume "role u = ''editor'' \<and> user_id u \<noteq> author f"
  with assms show "put_id_save e d u i c nm =
      (Response 403 (Message ''You can only save your own files''), d)"
    by (auto simp: put_id_save_def authorize_def save_handler_def)
next
  assume a: "role u = ''admin'' \<and> \<not> throws e FileSave \<and> \<not> throws e FilePopulate"
  then have eq: "put_id_save e d u i c nm =
      (Response 200 (FileDoc (populate (users d) (saved e u c nm f))),
       d\<lparr>files := replace_doc (saved e u c nm f) (files d)\<rparr>)"
    using save_handler_ok [OF assms, of u c nm]
    by (simp add: put_id_save_def authorize_def)
  then show "put_id_save e d u i c nm =
      (Response 200 (FileDoc (populate (users d) (saved e u c nm f))),
       d\<lparr>files := replace_doc (saved e u c nm f) (files d)\<rparr>)" .
  from eq show "succeeded (fst (put_id_save e d u i c nm))" by simp
  have id: "file_id (saved e u c nm f) = i"
    using findById_SomeD [OF assms(1)] by (simp add: saved_def)
  with assms(1) have "findById (files d) (file_id (saved e u c nm f)) \<noteq> None" by simp
  from findById_replace_same [OF this] id eq
  show "findById (files (snd (put_id_save e d u i c nm))) i = Some (saved e u c nm f)" by simp
qed

theorem save_ownership_witness:
  "findById (files db1) 7 = Some memo \<and> \<not> throws (quiet 20 9) FileFindById \<and>
   role eli = ''editor'' \<and> user_id eli \<noteq> author memo \<and>
   put_id_save (quiet 20 9) db1 eli 7 (Some ''world'') None =
     (Response 403 (Message ''You can only save your own files''), db1) \<and>
   role ada = ''admin'' \<and> user_id ada \<noteq> author memo \<and>
   \<not> throws (quiet 20 9) FileSave \<and> \<not> throws (quiet 20 9) FilePopulate \<and>
   succeeded (fst (put_id_save (quiet 20 9) db1 ada 7 (Some ''world'') None)) \<and>
   findById (files (snd (put_id_save (quiet 20 9) db1 ada 7 (Some ''world'') None))) 7 =
     Some (saved (quiet 20 9) ada (Some ''world'') None memo)"
proof -
  have h: "\<not> throws (quiet 20 9) FileFindById" by (simp add: quiet_def)
  have q: "\<not> throws (quiet 20 9) FileSave" "\<not> throws (quiet 20 9) FilePopulate"
    by (simp_all add: quiet_def)
  have u: "role eli = ''editor''" "user_id eli \<noteq> author memo"
    "role ada = ''admin''" "user_id ada \<noteq> author memo"
    by (simp_all add: eli_def ada_def memo_def)
  from save_ownership [OF db1_memo h, of eli "Some ''world''" None]
    save_ownership [OF db1_memo h, of ada "Some ''world''" None] db1_memo h q u
  show ?thesis by blast
qed

text \<open>
  C3. When the delete route succeeds, no Edit with \<open>file = i\<close> and no Notification with
  \<open>fileId = i\<close> remains. When the cleanup of the dependent records fails (one of the two
  \<^verbatim>\<open>deleteMany\<close> calls rejects), the route does not succeed and the File collection
  is as it was, so a file with that id still exists: \<^verbatim>\<open>findByIdAndDelete\<close> runs only
  after both cleanups are done.
\<close>

theorem cascade_integrity:
  "(succeeded (fst (delete_id e d u i)) \<longrightarrow>
      (\<forall>x\<in>set (edits (snd (delete_id e d u i))). file x \<noteq> i) \<and>
      (\<forall>n\<in>set (notifications (snd (delete_id e d u i))). fileId n \<noteq> i)) \<and>
   (throws e EditDeleteMany \<or> throws e NotificationDeleteMany \<longrightarrow>
      \<not> succeeded (fst (delete_id e d u i)) \<and>
      files (snd (delete_id e d u i)) = files d \<and>
      findById (files (snd (delete_id e d u i))) i = findById (files d) i)"
proof (intro conjI impI)
  assume "succeeded (fst (delete_id e d u i))"
  from delete_id_succeededD [OF this]
  show "\<forall>x\<in>set (edits (snd (delete_id e d u i))). file x \<noteq> i"
    and "\<forall>n\<in>set (notifications (snd (delete_id e d u i))). fileId n \<noteq> i"
    by (simp_all add: Edit_deleteMany_def Notification_deleteMany_def)
next
  assume a: "throws e EditDeleteMany \<or> throws e NotificationDeleteMany"
  from delete_id_cleanup_failed [OF a]
  show "\<not> succeeded (fst (delete_id e d u i))"
    and "files (snd (delete_id e d u i)) = files d"
    and "findById (files (snd (delete_id e d u i))) i = findById (files d) i"
    by simp_all
qed

theorem cascade_integrity_witness:
  "succeeded (fst (delete_id (quiet 20 9) db1 eli 7)) \<and>
   list_all (\<lambda>x. file x \<noteq> 7) (edits (snd (delete_id (quiet 20 9) db1 eli 7))) \<and>
   list_all (\<lambda>n. fileId n \<noteq> 7) (notifications (snd (delete_id (quiet 20 9) db1 eli 7))) \<and>
   (throws (failing EditDeleteMany 20 9) EditDeleteMany \<or>
    throws (failing EditDeleteMany 20 9) NotificationDeleteMany) \<and>
   \<not> succeeded (fst (delete_id (failing EditDeleteMany 20 9) db1 eli 7)) \<and>
   files (snd (delete_id (failing EditDeleteMany 20 9) db1 eli 7)) = files db1 \<and>
   findById (files (snd (delete_id (failing EditDeleteMany 20 9) db1 eli 7))) 7 = Some memo"
proof -
  have s: "succeeded (fst (delete_id (quiet 20 9) db1 eli 7))"
    by (simp add: route_defs scenario_db_defs)
  have t: "throws (failing EditDeleteMany 20 9) EditDeleteMany \<or>
           throws (failing EditDeleteMany 20 9) NotificationDeleteMany"
    by (simp add: failing_def)
  from cascade_integrity [of "quiet 20 9" db1 eli 7] s
  have a: "list_all (\<lambda>x. file x \<noteq> 7) (edits (snd (delete_id (quiet 20 9) db1 eli 7)))"
    "list_all (\<lambda>n. fileId n \<noteq> 7) (notifications (snd (delete_id (quiet 20 9) db1 eli 7)))"
    by (simp_all add: list_all_iff)
  from cascade_integrity [of "failing EditDeleteMany 20 9" db1 eli 7] t db1_memo
  have b: "\<not> succeeded (fst (delete_id (failing EditDeleteMany 20 9) db1 eli 7))"
    "files (snd (delete_id (failing EditDeleteMany 20 9) db1 eli 7)) = files db1"
    "findById (files (snd (delete_id (failing EditDeleteMany 20 9) db1 eli 7))) 7 = Some memo"
    by simp_all
  from s t a b show ?thesis by blast
qed

text \<open>
  C4. For an existing file and a principal with role admin, the direct update succeeds
  with no check of ownership (no premise relates the admin to the author): it appends
  a snapshot of the current content, with the admin as \<open>updatedBy\<close>, to \<open>versions\<close>,
  and then sets the content to the new content. The premises say that the store answers.
\<close>

theorem force_update_admin:
  assumes "findById (files d) i = Some f" and "role u = ''admin''"
    and "\<not> throws e FileFindById" and "\<not> throws e FileSave" and "\<not> throws e FilePopulate"
  shows "put_id e d u i c =
           (Response 200 (FileDoc (populate (users d) (force_updated e u c f))),
            d\<lparr>files := replace_doc (force_updated e u c f) (files d)\<rparr>) \<and>
         findById (files (snd (put_id e d u i c))) i = Some (force_updated e u c f) \<and>
         versions (force_updated e u c f) =
           versions f @ [\<lparr>Version.content = File.content f, updatedBy = user_id u\<rparr>] \<and>
         File.content (force_updated e u c f) = c"
proof -
  have eq: "put_id e d u i c =
           (Response 200 (FileDoc (populate (users d) (force_updated e u c f))),
            d\<lparr>files := replace_doc (force_updated e u c f) (files d)\<rparr>)"
    using put_handler_ok [OF assms(1,3,4,5), of u c] assms(2)
    by (simp add: put_id_def authorize_def)
  have id: "file_id (force_updated e u c f) = i"
    using findById_SomeD [OF assms(1)] by (simp add: force_updated_def)
  with assms(1) have "findById (files d) (file_id (force_updated e u c f)) \<noteq> None" by simp
  from findById_replace_same [OF this] id eq
  have "findById (files (snd (put_id e d u i c))) i = Some (force_updated e u c f)" by simp
  with eq show ?thesis by (simp add: force_updated_def)
qed

theorem force_update_admin_witness:
  "findById (files db1) 7 = Some memo \<and> role ada = ''admin'' \<and> user_id ada \<noteq> author memo \<and>
   \<not> throws (quiet 20 9) FileFindById \<and> \<not> throws (quiet 20 9) FileSave \<and>
   \<not> throws (quiet 20 9) FilePopulate \<and>
   succeeded (fst (put_id (quiet 20 9) db1 ada 7 (Some ''rewritten''))) \<and>
   findById (files (snd (put_id (quiet 20 9) db1 ada 7 (Some ''rewritten'')))) 7 =
     Some (force_updated (quiet 20 9) ada (Some ''rewritten'') memo) \<and>
   versions (force_updated (quiet 20 9) ada (Some ''rewritten'') memo) =
     [\<lparr>Version.content = Some ''hello'', updatedBy = 1\<rparr>,
      \<lparr>Version.content = Some ''hello'', updatedBy = 3\<rparr>] \<and>
   File.content (force_updated (quiet 20 9) ada (Some ''rewritten'') memo) = Some ''rewritten''"
proof -
  have h: "\<not> throws (quiet 20 9) FileFindById" "\<not> throws (quiet 20 9) FileSave"
    "\<not> throws (quiet 20 9) FilePopulate"
    by (simp_all add: quiet_def)
  have u: "role ada = ''admin''" "user_id ada \<noteq> author memo"
    by (simp_all add: ada_def memo_def)
  have v: "versions memo = [\<lparr>Version.content = Some ''hello'', updatedBy = 1\<rparr>]"
    "File.content memo = Some ''hello''" "user_id ada = 3"
    by (simp_all add: memo_def ada_def)
  note t = force_update_admin [OF db1_memo u(1) h, of "Some ''rewritten''"]
  from t have s: "succeeded (fst (put_id (quiet 20 9) db1 ada 7 (Some ''rewritten'')))"
    by simp
  from t have f: "findById (files (snd (put_id (quiet 20 9) db1 ada 7 (Some ''rewritten'')))) 7 =
     Some (force_updated (quiet 20 9) ada (Some ''rewritten'') memo)"
    by blast
  from t v have w: "versions (force_updated (quiet 20 9) ada (Some ''rewritten'') memo) =
     [\<lparr>Version.content = Some ''hello'', updatedBy = 1\<rparr>,
      \<lparr>Version.content = Some ''hello'', updatedBy = 3\<rparr>]"
    "File.content (force_updated (quiet 20 9) ada (Some ''rewritten'') memo) = Some ''rewritten''"
    by simp_all
  from db1_memo h u s f w show ?thesis by blast
qed

text \<open>
  C5. The listing of approved files returns no file whose status differs from
  \<^verbatim>\<open>'approved'\<close>; the listing of one's own files returns exactly the stored files whose
  author is the principal, whatever their status.
\<close>

theorem listing_scope:
  "(\<forall>f\<in>set (returned_files (fst (get_root e d u))). status f = ''approved'') \<and>
   (\<not> throws e FileFind \<longrightarrow>
      set (returned_files (fst (get_my_files e d u))) =
        {f \<in> set (files d). author f = user_id u})"
  by (simp add: returned_get_root returned_get_my_files)

theorem listing_scope_witness:
  "returned_files (fst (get_root (quiet 20 9) db1 eli)) = [memo] \<and>
   list_all (\<lambda>f. status f = ''approved'') (returned_files (fst (get_root (quiet 20 9) db1 eli))) \<and>
   \<not> throws (quiet 20 9) FileFind \<and>
   set (returned_files (fst (get_my_files (quiet 20 9) db1 eli))) =
     {f \<in> set (files db1). author f = user_id eli} \<and>
   returned_files (fst (get_my_files (quiet 20 9) db1 eli)) = [sketch] \<and>
   status sketch = ''draft''"
proof -
  have h: "\<not> throws (quiet 20 9) FileFind" by (simp add: quiet_def)
  have a: "returned_files (fst (get_root (quiet 20 9) db1 eli)) = [memo]"
    by (simp add: route_defs scenario_db_defs)
  have m: "returned_files (fst (get_my_files (quiet 20 9) db1 eli)) = [sketch]"
    by (simp add: route_defs scenario_db_defs)
  have s: "status sketch = ''draft''" by (simp add: sketch_def)
  from listing_scope [of "quiet 20 9" db1 eli] h
  have "list_all (\<lambda>f. status f = ''approved'') (returned_files (fst (get_root (quiet 20 9) db1 eli)))"
    and "set (returned_files (fst (get_my_files (quiet 20 9) db1 eli))) =
     {f \<in> set (files db1). author f = user_id eli}"
    by (simp_all add: list_all_iff)
  with h a m s show ?thesis by simp
qed

text \<open>
  C6. For a principal with role editor or admin and every name and content, the create
  route produces a file with status \<^verbatim>\<open>'approved'\<close>, the principal as author, and a
  \<open>versions\<close> of exactly one entry, whose content is the initial content and whose
  \<open>updatedBy\<close> is the creator. The premises say that the store accepts the insert.
\<close>

theorem create_founding:
  assumes "role u = ''editor'' \<or> role u = ''admin''"
    and "\<not> throws e FileSave" and "findById (files d) (new_id e) = None"
    and "\<not> throws e FilePopulate"
  shows "\<exists>f. post_root e d u nm c =
               (Response 201 (FileDoc (populate (users d) f)), d\<lparr>files := files d @ [f]\<rparr>) \<and>
             findById (files (snd (post_root e d u nm c))) (file_id f) = Some f \<and>
             status f = ''approved'' \<and> author f = user_id u \<and>
             versions f = [\<lparr>Version.content = c, updatedBy = user_id u\<rparr>] \<and>
             File.name f = nm \<and> File.content f = c"
proof -
  from assms(1) have auth: "authorize [''editor'', ''admin''] u"
    by (auto simp: authorize_def)
  with post_handler_ok [OF assms(2,3,4), of u nm c]
  have eq: "post_root e d u nm c =
      (Response 201 (FileDoc (populate (users d) (created e u nm c))),
       d\<lparr>files := files d @ [created e u nm c]\<rparr>)"
    by (simp add: post_root_def)
  then have "succeeded (fst (post_root e d u nm c))" by simp
  from post_root_succeeded [OF this] eq show ?thesis
    by (intro exI [of _ "created e u nm c"]) (simp add: created_def)
qed

theorem create_founding_witness:
  "(role erin = ''editor'' \<or> role erin = ''admin'') \<and> \<not> throws (quiet 10 7) FileSave \<and>
   findById (files db0) (new_id (quiet 10 7)) = None \<and> \<not> throws (quiet 10 7) FilePopulate \<and>
   (\<exists>f. post_root (quiet 10 7) db0 erin (Some ''a.txt'') (Some ''hello'') =
           (Response 201 (FileDoc (populate (users db0) f)), db0\<lparr>files := files db0 @ [f]\<rparr>) \<and>
        findById (files (snd (post_root (quiet 10 7) db0 erin (Some ''a.txt'') (Some ''hello''))))
          (file_id f) = Some f \<and>
        status f = ''approved'' \<and> author f = user_id erin \<and>
        versions f = [\<lparr>Version.content = Some ''hello'', updatedBy = user_id erin\<rparr>] \<and>
        File.name f = Some ''a.txt'' \<and> File.content f = Some ''hello'')"
proof -
  have r: "role erin = ''editor'' \<or> role erin = ''admin''" by (simp add: erin_def)
  have h: "\<not> throws (quiet 10 7) FileSave"
    "findById (files db0) (new_id (quiet 10 7)) = None"
    "\<not> throws (quiet 10 7) FilePopulate"
    by (simp_all add: quiet_def db0_def findById_def)
  from create_founding [OF r h, of "Some ''a.txt''" "Some ''hello''"] r h
  show ?thesis by blast
qed

text \<open>
  C7. For an id that no stored file has, the handlers of get, direct update, save and
  delete each answer 404 and leave the database as it was; so do the routes, for a
  principal the role check lets through. The premise on the environment says that the
  lookup itself does not reject.
\<close>

theorem absent_id_not_found:
  assumes "findById (files d) i = None" and "\<not> throws e FileFindById"
  shows "get_id e d u i = (Response 404 (Message ''File not found''), d) \<and>
         put_handler e d u i c = (Response 404 (Message ''File not found''), d) \<and>
         save_handler e d u i c nm = (Response 404 (Message ''File not found''), d) \<and>
         delete_handler e d u i = (Response 404 (Message ''File not found''), d) \<and>
         put_id e d u i c =
           (if authorize [''admin''] u then Response 404 (Message ''File not found'') else Denied, d) \<and>
         put_id_save e d u i c nm =
           (if authorize [''editor'', ''admin''] u then Response 404 (Message ''File not found'')
            else Denied, d) \<and>
         delete_id e d u i =
           (if authorize [''editor'', ''admin''] u then Response 404 (Message ''File not found'')
            else Denied, d)"
  using assms
  by (simp add: get_id_def put_handler_def save_handler_def delete_handler_def put_id_def
      put_id_save_def delete_id_def)

theorem absent_id_not_found_witness:
  "findById (files db1) 99 = None \<and> \<not> throws (quiet 20 9) FileFindById \<and>
   get_id (quiet 20 9) db1 erin 99 = (Response 404 (Message ''File not found''), db1) \<and>
   put_id (quiet 20 9) db1 ada 99 (Some ''x'') = (Response 404 (Message ''File not found''), db1) \<and>
   put_id_save (quiet 20 9) db1 erin 99 (Some ''x'') None =
     (Response 404 (Message ''File not found''), db1) \<and>
   delete_id (quiet 20 9) db1 erin 99 = (Response 404 (Message ''File not found''), db1)"
proof -
  have a: "findById (files db1) 99 = None"
    by (simp add: findById_def db1_def memo_def sketch_def)
  have h: "\<not> throws (quiet 20 9) FileFindById" by (simp add: quiet_def)
  have g: "authorize [''admin''] ada" "authorize [''editor'', ''admin''] erin"
    by (simp_all add: authorize_def ada_def erin_def)
  from absent_id_not_found [OF a h, of erin "Some ''x''" None]
    absent_id_not_found [OF a h, of ada "Some ''x''" None] a h g
  show ?thesis by simp
qed

text \<open>
  C8, as the code has it. The create route makes no check of its own on a request whose
  name or content is missing; the store decides. When the store rejects the save, the
  answer is the generic 500 \<^verbatim>\<open>'Failed to create file'\<close>, the same as for a complete
  request whose save is rejected, and no file is persisted; when the store accepts the
  save, the file is persisted with the missing field absent.
\<close>

theorem create_missing_field_store_decides:
  assumes "nm = None \<or> c = None" and "role u = ''editor'' \<or> role u = ''admin''"
  shows "(throws e FileSave \<longrightarrow>
            post_root e d u nm c = (Response 500 (Message ''Failed to create file''), d) \<and>
            post_root e d u nm c = post_root e d u (Some nm') (Some c')) \<and>
         (\<not> throws e FileSave \<and> findById (files d) (new_id e) = None \<longrightarrow>
            files (snd (post_root e d u nm c)) = files d @ [created e u nm c])"
proof -
  from assms(2) have "authorize [''editor'', ''admin''] u" by (auto simp: authorize_def)
  then show ?thesis
    by (simp add: post_root_def post_handler_def save_new_def created_def Let_def)
qed

theorem create_missing_field_store_decides_witness:
  "((None :: string option) = None \<or> Some ''hello'' = None) \<and>
   (role erin = ''editor'' \<or> role erin = ''admin'') \<and>
   throws (failing FileSave 10 7) FileSave \<and>
   post_root (failing FileSave 10 7) db0 erin None (Some ''hello'') =
     (Response 500 (Message ''Failed to create file''), db0) \<and>
   post_root (failing FileSave 10 7) db0 erin None (Some ''hello'') =
     post_root (failing FileSave 10 7) db0 erin (Some ''a.txt'') (Some ''hello'') \<and>
   \<not> throws (quiet 10 7) FileSave \<and> findById (files db0) (new_id (quiet 10 7)) = None \<and>
   files (snd (post_root (quiet 10 7) db0 erin None (Some ''hello''))) =
     files db0 @ [created (quiet 10 7) erin None (Some ''hello'')]"
proof -
  have m: "(None :: string option) = None \<or> Some ''hello'' = None" by simp
  have r: "role erin = ''editor'' \<or> role erin = ''admin''" by (simp add: erin_def)
  have h: "throws (failing FileSave 10 7) FileSave" "\<not> throws (quiet 10 7) FileSave"
    "findById (files db0) (new_id (quiet 10 7)) = None"
    by (simp_all add: failing_def quiet_def db0_def findById_def)
  from create_missing_field_store_decides [OF m r, of "failing FileSave 10 7" db0 "''a.txt''" "''hello''"]
    create_missing_field_store_decides [OF m r, of "quiet 10 7" db0 "''a.txt''" "''hello''"] m r h
  show ?thesis by blast
qed

text \<open>
  C8, as stated, fails: a request without a name is created and persisted when the
  store accepts it, and when the store rejects the save it is answered exactly as a
  complete request is, with no validation error of its own.
\<close>

theorem create_missing_name_counterexample:
  "post_root (quiet 10 7) db0 erin None (Some ''hello'') =
     (Response 201
        (FileDoc (created (quiet 10 7) erin None (Some ''hello''), Some (''Erin'', ''erin@example.org''))),
      db0\<lparr>files := [created (quiet 10 7) erin None (Some ''hello'')]\<rparr>) \<and>
   post_root (failing FileSave 10 7) db0 erin None (Some ''hello'') =
     (Response 500 (Message ''Failed to create file''), db0) \<and>
   post_root (failing FileSave 10 7) db0 erin (Some ''a.txt'') (Some ''hello'') =
     (Response 500 (Message ''Failed to create file''), db0)"
  by (simp add: route_defs scenario_defs created_def)

text \<open>
  C9. Whatever the request (a listing, a get, a create, a direct update, a save, the
  delete of another file), whoever sends it and whatever the store does, a stored file is
  still stored afterwards and its \<open>versions\<close> before the request is a prefix of its
  \<open>versions\<close> after it.
\<close>

theorem ledger_only_grows:
  assumes "findById (files d) i = Some f" and "req \<noteq> DELETE_id i"
  shows "\<exists>f'. findById (files (snd (router e d u req))) i = Some f' \<and>
              prefix (versions f) (versions f')"
proof -
  have "ledger_kept i d (snd (router e d u req))"
  proof (cases req)
    case GET_root
    then show ?thesis by (simp add: get_root_def ledger_kept_refl)
  next
    case GET_my_files
    then show ?thesis by (simp add: get_my_files_def ledger_kept_refl)
  next
    case (GET_id j)
    then show ?thesis by (simp add: get_id_def ledger_kept_refl split: option.splits)
  next
    case (POST_root nm c)
    then show ?thesis by (simp add: ledger_post_root)
  next
    case (PUT_id j c)
    then show ?thesis by (simp add: ledger_put_id)
  next
    case (PUT_id_save j c nm)
    then show ?thesis by (simp add: ledger_put_id_save)
  next
    case (DELETE_id j)
    with assms(2) have "i \<noteq> j" by simp
    with DELETE_id show ?thesis by (simp add: ledger_delete_id)
  qed
  with assms(1) show ?thesis
    by (simp add: ledger_kept_def split: option.splits)
qed

theorem ledger_only_grows_witness:
  "findById (files db1) 7 = Some memo \<and> PUT_id_save 7 (Some ''world'') None \<noteq> DELETE_id 7 \<and>
   DELETE_id 8 \<noteq> DELETE_id 7 \<and>
   (\<exists>f'. findById (files (snd (router (quiet 20 9) db1 erin (PUT_id_save 7 (Some ''world'') None)))) 7
            = Some f' \<and> prefix (versions memo) (versions f')) \<and>
   (\<exists>f'. findById (files (snd (router (quiet 20 9) db1 erin (DELETE_id 8)))) 7
            = Some f' \<and> prefix (versions memo) (versions f'))"
proof -
  have r: "PUT_id_save 7 (Some ''world'') None \<noteq> DELETE_id 7" "DELETE_id 8 \<noteq> DELETE_id 7"
    by simp_all
  from ledger_only_grows [OF db1_memo r(1), of "quiet 20 9" erin]
    ledger_only_grows [OF db1_memo r(2), of "quiet 20 9" erin] db1_memo r
  show ?thesis by blast
qed

text \<open>
  C10. When both cleanups succeed and the removal of the File itself is rejected, the
  delete route answers 500, the File is still stored, and the Edits and Notifications
  that referred to it are gone: the cleanup is not rolled back.
\<close>

theorem delete_cleanup_not_rolled_back:
  assumes "findById (files d) i = Some f" and "role u = ''editor'' \<or> role u = ''admin''"
    and "\<not> throws e FileFindById"
    and "\<not> throws e EditDeleteMany" and "\<not> throws e NotificationDeleteMany"
    and "throws e FileFindByIdAndDelete"
  shows "delete_id e d u i =
           (Response 500 (Message ''Failed to delete file''),
            d\<lparr>edits := Edit_deleteMany i (edits d),
              notifications := Notification_deleteMany i (notifications d)\<rparr>) \<and>
         findById (files (snd (delete_id e d u i))) i = Some f \<and>
         edits (snd (delete_id e d u i)) = filter (\<lambda>x. file x \<noteq> i) (edits d) \<and>
         notifications (snd (delete_id e d u i)) = filter (\<lambda>n. fileId n \<noteq> i) (notifications d)"
proof -
  from assms(2) have "authorize [''editor'', ''admin''] u" by (auto simp: authorize_def)
  with delete_handler_cases [OF assms(1,3), of u] assms(4,5,6)
  have "delete_id e d u i =
           (Response 500 (Message ''Failed to delete file''),
            d\<lparr>edits := Edit_deleteMany i (edits d),
              notifications := Notification_deleteMany i (notifications d)\<rparr>)"
    by (simp add: delete_id_def)
  with assms(1) show ?thesis
    by (simp add: Edit_deleteMany_def Notification_deleteMany_def)
qed

theorem delete_cleanup_not_rolled_back_witness:
  "findById (files db1) 7 = Some memo \<and> (role eli = ''editor'' \<or> role eli = ''admin'') \<and>
   \<not> throws (failing FileFindByIdAndDelete 20 9) FileFindById \<and>
   \<not> throws (failing FileFindByIdAndDelete 20 9) EditDeleteMany \<and>
   \<not> throws (failing FileFindByIdAndDelete 20 9) NotificationDeleteMany \<and>
   throws (failing FileFindByIdAndDelete 20 9) FileFindByIdAndDelete \<and>
   fst (delete_id (failing FileFindByIdAndDelete 20 9) db1 eli 7) =
     Response 500 (Message ''Failed to delete file'') \<and>
   findById (files (snd (delete_id (failing FileFindByIdAndDelete 20 9) db1 eli 7))) 7 = Some memo \<and>
   edits db1 = [\<lparr>edit_id = 1, file = 7\<rparr>, \<lparr>edit_id = 2, file = 8\<rparr>] \<and>
   edits (snd (delete_id (failing FileFindByIdAndDelete 20 9) db1 eli 7)) =
     [\<lparr>edit_id = 2, file = 8\<rparr>] \<and>
   notifications db1 = [\<lparr>notification_id = 1, fileId = 7\<rparr>, \<lparr>notification_id = 2, fileId = 8\<rparr>] \<and>
   notifications (snd (delete_id (failing FileFindByIdAndDelete 20 9) db1 eli 7)) =
     [\<lparr>notification_id = 2, fileId = 8\<rparr>]"
proof -
  have r: "role eli = ''editor'' \<or> role eli = ''admin''" by (simp add: eli_def)
  have h: "\<not> throws (failing FileFindByIdAndDelete 20 9) FileFindById"
    "\<not> throws (failing FileFindByIdAndDelete 20 9) EditDeleteMany"
    "\<not> throws (failing FileFindByIdAndDelete 20 9) NotificationDeleteMany"
    "throws (failing FileFindByIdAndDelete 20 9) FileFindByIdAndDelete"
    by (simp_all add: failing_def)
  have d: "edits db1 = [\<lparr>edit_id = 1, file = 7\<rparr>, \<lparr>edit_id = 2, file = 8\<rparr>]"
    "notifications db1 = [\<lparr>notification_id = 1, fileId = 7\<rparr>, \<lparr>notification_id = 2, fileId = 8\<rparr>]"
    by (simp_all add: db1_def)
  note t = delete_cleanup_not_rolled_back [OF db1_memo r h]
  from t have a: "fst (delete_id (failing FileFindByIdAndDelete 20 9) db1 eli 7) =
     Response 500 (Message ''Failed to delete file'')"
    by simp
  from t have b: "findById (files (snd (delete_id (failing FileFindByIdAndDelete 20 9) db1 eli 7))) 7 = Some memo"
    by blast
  from t d have c: "edits (snd (delete_id (failing FileFindByIdAndDelete 20 9) db1 eli 7)) =
     [\<lparr>edit_id = 2, file = 8\<rparr>]"
    "notifications (snd (delete_id (failing FileFindByIdAndDelete 20 9) db1 eli 7)) =
     [\<lparr>notification_id = 2, fileId = 8\<rparr>]"
    by (simp_all add: Edit_deleteMany_def Notification_deleteMany_def)
  from db1_memo r h a b c d show ?thesis by blast
qed

end
